theory Spec2Isabelle
  imports Complex_Main
begin

section \<open>Micro-loan underwriting service (main.py)\<close>

text \<open>
  The handlers \<open>apply_loan\<close> and \<open>record_repayment\<close> of main.py, and the helpers they
  call, over an explicit database state. A Python float is the \<open>real\<close> number it
  denotes and float arithmetic rounds to the nearest double (see below), Python integers
  are \<open>int\<close>, strings as \<open>string\<close>; a raised exception is the \<open>Inl\<close> branch of a sum.
  A handler returns its outcome together with the database as it is after the connection is
  closed: the committed state on success, the state before the request on failure (the
  handlers either roll back or close the connection without committing).
\<close>

subsection \<open>Exceptions\<close>

text \<open>
  The exception classes that the handlers raise or catch. \<open>HTTPException\<close> carries its status
  code (the detail text is not modelled). Every constructor is a subclass of Python's
  \<open>Exception\<close>; only \<open>Sqlite3Error\<close> is a subclass of \<open>sqlite3.Error\<close>.
\<close>

datatype py_exn =
    HTTPException nat
  | Sqlite3Error
  | ValueError
  | OverflowError
  | IndexError
  | ArtifactError

subsection \<open>Strings: split, join, decimal digits\<close>

text \<open>\<open>s.split(",")\<close>: the result is never empty; the empty string gives one empty field.\<close>

fun split_comma :: "string \<Rightarrow> string list" where
  "split_comma [] = [[]]"
| "split_comma (c # cs) =
     (if c = CHR '','' then [] # split_comma cs
      else (case split_comma cs of
              [] \<Rightarrow> [[c]]
            | w # ws \<Rightarrow> (c # w) # ws))"

text \<open>\<open>",".join(xs)\<close>.\<close>

fun join_comma :: "string list \<Rightarrow> string" where
  "join_comma [] = []"
| "join_comma [w] = w"
| "join_comma (w # v # ws) = w @ CHR '','' # join_comma (v # ws)"

definition digit_table :: "(char \<times> nat) list" where
  "digit_table =
     [(CHR ''0'', 0), (CHR ''1'', 1), (CHR ''2'', 2), (CHR ''3'', 3), (CHR ''4'', 4),
      (CHR ''5'', 5), (CHR ''6'', 6), (CHR ''7'', 7), (CHR ''8'', 8), (CHR ''9'', 9)]"

definition digit_val :: "char \<Rightarrow> nat option" where
  "digit_val c = map_of digit_table c"

definition digit_char :: "nat \<Rightarrow> char" where
  "digit_char n = ''0123456789'' ! (n mod 10)"

text \<open>Reading a non-empty run of decimal digits; \<open>None\<close> when a character is not a digit.\<close>

fun parse_digits_acc :: "nat \<Rightarrow> string \<Rightarrow> nat option" where
  "parse_digits_acc acc [] = Some acc"
| "parse_digits_acc acc (c # cs) =
     (case digit_val c of
        None \<Rightarrow> None
      | Some d \<Rightarrow> parse_digits_acc (10 * acc + d) cs)"

definition parse_digits :: "string \<Rightarrow> nat option" where
  "parse_digits s = (if s = [] then None else parse_digits_acc 0 s)"

text \<open>\<open>str(n)\<close> for a Python integer.\<close>

fun str_nat :: "nat \<Rightarrow> string" where
  "str_nat n = (if n < 10 then [digit_char n] else str_nat (n div 10) @ [digit_char n])"

declare str_nat.simps [simp del]

definition str_int :: "int \<Rightarrow> string" where
  "str_int i = (if i < 0 then CHR ''-'' # str_nat (nat (- i)) else str_nat (nat i))"

text \<open>A number printed with at least \<open>w\<close> digits, zero padded (\<open>%Y\<close>, \<open>%m\<close>, \<open>%d\<close>).\<close>

definition zero_pad :: "nat \<Rightarrow> nat \<Rightarrow> string" where
  "zero_pad w n = replicate (w - length (str_nat n)) (CHR ''0'') @ str_nat n"

subsection \<open>Floats\<close>

text \<open>
  A finite double is the real number it denotes. A float operation computes the exact
  result and rounds it to the nearest double, ties to the even significand: in the binade
  \<open>2^e \<le> |x| < 2^(e+1)\<close> the doubles are the multiples of \<open>2^(e-52)\<close>, and below
  \<open>2^(-1022)\<close> the multiples of \<open>2^(-1074)\<close>. Infinities and NaN are not modelled: the
  request models exclude NaN by their bounds, and no product or difference of the handlers
  leaves the finite range unless a request or the classifier supplies a value beyond
  \<open>10^306\<close>.
\<close>

text \<open>\<open>n.bit_length()\<close>.\<close>

fun bit_length :: "nat \<Rightarrow> nat" where
  "bit_length n = (if n = 0 then 0 else Suc (bit_length (n div 2)))"

declare bit_length.simps [simp del]

definition pow2 :: "int \<Rightarrow> real" where
  "pow2 e = (if 0 \<le> e then 2 ^ nat e else 1 / 2 ^ nat (- e))"

text \<open>The exponent \<open>e\<close> with \<open>2^e \<le> |x| < 2^(e+1)\<close>, for \<open>x\<close> other than 0.\<close>

definition binade :: "real \<Rightarrow> int" where
  "binade x =
     (if 1 \<le> \<bar>x\<bar> then int (bit_length (nat \<lfloor>\<bar>x\<bar>\<rfloor>)) - 1
      else - int (bit_length (nat \<lceil>1 / \<bar>x\<bar>\<rceil> - 1)))"

definition round_half_even :: "real \<Rightarrow> int" where
  "round_half_even y =
     (let f = \<lfloor>y\<rfloor>; r = y - of_int f
      in if r < 1 / 2 then f
         else if 1 / 2 < r then f + 1
         else if even f then f else f + 1)"

definition round_double :: "real \<Rightarrow> real" where
  "round_double x =
     (if x = 0 then 0
      else (let q = pow2 (max (binade x) (- 1022) - 52)
            in of_int (round_half_even (x / q)) * q))"

text \<open>\<open>a * b\<close> and \<open>a - b\<close> on floats.\<close>

definition fmul :: "real \<Rightarrow> real \<Rightarrow> real" where
  "fmul a b = round_double (a * b)"

definition fsub :: "real \<Rightarrow> real \<Rightarrow> real" where
  "fsub a b = round_double (a - b)"

text \<open>The values that a float field of a request can hold.\<close>

definition is_double :: "real \<Rightarrow> bool" where
  "is_double x = (round_double x = x)"

text \<open>
  \<open>abs(loan[0] - repayment.amount) > 0.01\<close>: the difference is rounded, and the literal
  \<open>0.01\<close> is the double nearest to one hundredth.
\<close>

definition amount_mismatch :: "real \<Rightarrow> real \<Rightarrow> bool" where
  "amount_mismatch a b = (round_double (1 / 100) < \<bar>fsub a b\<bar>)"

subsection \<open>Dates\<close>

text \<open>
  A \<open>datetime\<close> at midnight is its proleptic Gregorian ordinal (day 1 is 0001-01-01), as
  computed by the datetime module. \<open>strptime_ymd\<close> is \<open>datetime.strptime(s, "%Y-%m-%d")\<close> on
  the strings that the handlers pass to it, which have the shape \<open>dddd-dd-dd\<close>: the request
  model's pattern admits nothing else, and \<open>strftime_ymd\<close> writes nothing else for the years
  1000 to 9999. Any other string raises \<open>ValueError\<close> here.
\<close>

definition is_leap :: "int \<Rightarrow> bool" where
  "is_leap y = (y mod 4 = 0 \<and> (if y mod 100 = 0 then y mod 400 = 0 else True))"

definition days_in_month :: "int \<Rightarrow> int \<Rightarrow> int" where
  "days_in_month y m =
     (if m = 2 \<and> is_leap y then 29
      else [31, 28, 31, 30, 31, 30, 31, 31, 30, 31, 30, 31] ! nat (m - 1))"

definition days_before_year :: "int \<Rightarrow> int" where
  "days_before_year y =
     (y - 1) * 365 + (y - 1) div 4 - (y - 1) div 100 + (y - 1) div 400"

definition days_before_month :: "int \<Rightarrow> int \<Rightarrow> int" where
  "days_before_month y m =
     [0, 31, 59, 90, 120, 151, 181, 212, 243, 273, 304, 334] ! nat (m - 1)
       + (if 2 < m \<and> is_leap y then 1 else 0)"

definition ymd2ord :: "int \<Rightarrow> int \<Rightarrow> int \<Rightarrow> int" where
  "ymd2ord y m d = days_before_year y + days_before_month y m + d"

definition MAXORDINAL :: int where
  "MAXORDINAL = 3652059"

definition strptime_ymd :: "string \<Rightarrow> py_exn + int" where
  "strptime_ymd s =
     (if length s = 10 \<and> s ! 4 = CHR ''-'' \<and> s ! 7 = CHR ''-'' then
        (case (parse_digits (take 4 s), parse_digits (take 2 (drop 5 s)),
               parse_digits (drop 8 s)) of
           (Some y, Some m, Some d) \<Rightarrow>
             (if 1 \<le> y \<and> 1 \<le> m \<and> m \<le> 12 \<and> 1 \<le> d
                 \<and> int d \<le> days_in_month (int y) (int m)
              then Inr (ymd2ord (int y) (int m) (int d))
              else Inl ValueError)
         | _ \<Rightarrow> Inl ValueError)
      else Inl ValueError)"

text \<open>\<open>d + timedelta(days=k)\<close>: a result outside the years 1 to 9999 raises \<open>OverflowError\<close>.\<close>

definition add_days :: "int \<Rightarrow> int \<Rightarrow> py_exn + int" where
  "add_days d k = (if 1 \<le> d + k \<and> d + k \<le> MAXORDINAL then Inr (d + k) else Inl OverflowError)"

text \<open>The inverse of \<open>ymd2ord\<close>, as the datetime module computes it.\<close>

definition ord2ymd :: "int \<Rightarrow> int \<times> int \<times> int" where
  "ord2ymd n0 =
     (let n = n0 - 1;
          n400 = n div 146097; n = n mod 146097;
          n100 = n div 36524; n = n mod 36524;
          n4 = n div 1461; n = n mod 1461;
          n1 = n div 365; n = n mod 365;
          year = n400 * 400 + 1 + n100 * 100 + n4 * 4 + n1
      in if n1 = 4 \<or> n100 = 4 then (year - 1, 12, 31)
         else
           (let leapyear = (n1 = 3 \<and> (n4 \<noteq> 24 \<or> n100 = 3));
                month = (n + 50) div 32;
                preceding = days_before_month 1 month + (if 2 < month \<and> leapyear then 1 else 0)
            in if n < preceding then
                 (let month' = month - 1;
                      preceding' = preceding
                        - (days_in_month 1 month' + (if month' = 2 \<and> leapyear then 1 else 0))
                  in (year, month', n - preceding' + 1))
               else (year, month, n - preceding + 1)))"

text \<open>\<open>d.strftime("%Y-%m-%d")\<close>.\<close>

definition strftime_ymd :: "int \<Rightarrow> string" where
  "strftime_ymd n =
     (case ord2ymd n of
        (y, m, d) \<Rightarrow> zero_pad 4 (nat y) @ ''-'' @ zero_pad 2 (nat m) @ ''-'' @ zero_pad 2 (nat d))"

subsection \<open>Requests, tables and responses\<close>

text \<open>The request models. FastAPI validates a request before the handler runs.\<close>

record LoanApplication =
  user_id :: string
  loan_amount :: real
  transaction_frequency :: real
  avg_transaction_amount :: real
  utility_payment_consistency :: real
  airtime_topup_frequency :: real

record Repayment =
  r_user_id :: string
  r_loan_id :: string
  r_payment_date :: string
  r_amount :: real

definition valid_LoanApplication :: "LoanApplication \<Rightarrow> bool" where
  "valid_LoanApplication a =
     (1 \<le> length (user_id a) \<and> 0 < loan_amount a \<and> 0 \<le> transaction_frequency a
      \<and> 0 \<le> avg_transaction_amount a \<and> 0 \<le> utility_payment_consistency a
      \<and> utility_payment_consistency a \<le> 1 \<and> 0 \<le> airtime_topup_frequency a
      \<and> is_double (loan_amount a) \<and> is_double (transaction_frequency a)
      \<and> is_double (avg_transaction_amount a) \<and> is_double (utility_payment_consistency a)
      \<and> is_double (airtime_topup_frequency a))"

text \<open>The pattern \<open>^\d{4}-\d{2}-\d{2}$\<close> of \<open>payment_date\<close>.\<close>

definition date_pattern :: "string \<Rightarrow> bool" where
  "date_pattern s =
     (length s = 10 \<and> s ! 4 = CHR ''-'' \<and> s ! 7 = CHR ''-''
      \<and> list_all (\<lambda>i. digit_val (s ! i) \<noteq> None) [0, 1, 2, 3, 5, 6, 8, 9])"

definition valid_Repayment :: "Repayment \<Rightarrow> bool" where
  "valid_Repayment r =
     (1 \<le> length (r_user_id r) \<and> 1 \<le> length (r_loan_id r)
      \<and> date_pattern (r_payment_date r) \<and> 0 < r_amount r \<and> is_double (r_amount r))"

text \<open>
  The four tables of \<open>init_db\<close>. \<open>users\<close> and \<open>user_gamification\<close> have \<open>user_id\<close> as primary
  key and are maps from it to the other columns; \<open>loans\<close> and \<open>repayments\<close> are lists of rows
  in insertion order (a repayment's autoincrement id is its position). SQLite does not
  enforce the foreign keys, which the code never switches on.
\<close>

record user_row =
  u_transaction_frequency :: real
  u_avg_transaction_amount :: real
  u_utility_payment_consistency :: real
  u_airtime_topup_frequency :: real

record loan_row =
  l_loan_id :: string
  l_user_id :: string
  l_amount :: real
  l_decision :: string
  l_score :: real
  l_application_date :: string
  l_due_date :: string

record repayment_row =
  p_user_id :: string
  p_loan_id :: string
  p_payment_date :: string
  p_amount :: real
  p_status :: string

record gamification_row =
  repayment_streak :: int
  points_earned :: int
  badges_earned :: string

record db =
  users :: "string \<rightharpoonup> user_row"
  loans :: "loan_row list"
  repayments :: "repayment_row list"
  user_gamification :: "string \<rightharpoonup> gamification_row"

definition empty_db :: db where
  "empty_db = \<lparr>users = Map.empty, loans = [], repayments = [], user_gamification = Map.empty\<rparr>"

record apply_response =
  ar_user_id :: string
  ar_loan_id :: string
  ar_decision :: string
  ar_score :: real
  ar_explanation :: "(string \<times> real) list"
  ar_points_earned :: int
  ar_badges_earned :: "string list"
  ar_message :: string

record repay_response =
  rr_user_id :: string
  rr_loan_id :: string
  rr_status :: string
  rr_new_repayment_streak :: int
  rr_points_earned :: int
  rr_badges_earned :: "string list"
  rr_new_score :: real
  rr_message :: string

subsection \<open>The model artifacts and the clock\<close>

text \<open>
  The scaler, the classifier and the explainer are loaded from pickle files at start-up and
  are parameters here. \<open>scaler_transform\<close> is \<open>scaler.transform([features])\<close>,
  \<open>predict_proba\<close> is \<open>model.predict_proba(x)[0][1]\<close>, and \<open>explainer\<close> is
  \<open>explainer(x)[0].values\<close>, with \<open>None\<close> when the call raises.
\<close>

record artifacts =
  scaler_transform :: "real list \<Rightarrow> real list"
  predict_proba :: "real list \<Rightarrow> real"
  explainer :: "real list \<Rightarrow> real list option"

text \<open>
  \<open>apply_loan\<close> reads \<open>datetime.now()\<close> three times: the epoch second for the loan id, the
  local day for the due date, and the local day for the application date (days are ordinals).
\<close>

record clock =
  now_timestamp :: int
  now_due :: int
  now_applied :: int

subsection \<open>Helper functions\<close>

text \<open>\<open>SELECT COUNT(*) FROM loans WHERE user_id = ?\<close>, compared with 0.\<close>

definition is_first_application :: "db \<Rightarrow> string \<Rightarrow> bool" where
  "is_first_application d uid = (length (filter (\<lambda>l. l_user_id l = uid) (loans d)) = 0)"

text \<open>\<open>(datetime.now() + timedelta(days=30)).strftime("%Y-%m-%d")\<close>.\<close>

definition next_due_date :: "int \<Rightarrow> py_exn + string" where
  "next_due_date today =
     (case add_days today 30 of
        Inl e \<Rightarrow> Inl e
      | Inr d \<Rightarrow> Inr (strftime_ymd d))"

definition fetch_user_data :: "db \<Rightarrow> string \<Rightarrow> py_exn + user_row" where
  "fetch_user_data d uid =
     (case users d uid of
        None \<Rightarrow> Inl (HTTPException 404)
      | Some u \<Rightarrow> Inr u)"

subsection \<open>apply_loan\<close>

text \<open>The SHAP explanation: the explainer call may raise, and four values are indexed.\<close>

definition shap_explanation :: "artifacts \<Rightarrow> real list \<Rightarrow> py_exn + (string \<times> real) list" where
  "shap_explanation A x =
     (case explainer A x of
        None \<Rightarrow> Inl ArtifactError
      | Some shap_values \<Rightarrow>
          if length shap_values < 4 then Inl IndexError
          else Inr [(''transaction_frequency'', shap_values ! 0),
                    (''avg_transaction_amount'', shap_values ! 1),
                    (''utility_payment_consistency'', shap_values ! 2),
                    (''airtime_topup_frequency'', shap_values ! 3)])"

text \<open>
  The four statements of the inner \<open>try\<close> and the commit: \<open>INSERT OR IGNORE\<close> into
  \<open>users\<close>, \<open>INSERT\<close> into \<open>loans\<close> (which raises on a loan id that is already present,
  the primary key), \<open>INSERT OR IGNORE\<close> of a zeroed \<open>user_gamification\<close> row, and the
  \<open>UPDATE\<close> that adds the points and sets \<open>badges_earned\<close>.
\<close>

definition save_application ::
  "db \<Rightarrow> LoanApplication \<Rightarrow> loan_row \<Rightarrow> int \<Rightarrow> string list \<Rightarrow> py_exn + db" where
  "save_application d application loan points badges =
     (let uid = user_id application;
          users' = (case users d uid of
                      None \<Rightarrow> (users d)(uid \<mapsto>
                        \<lparr>u_transaction_frequency = transaction_frequency application,
                         u_avg_transaction_amount = avg_transaction_amount application,
                         u_utility_payment_consistency = utility_payment_consistency application,
                         u_airtime_topup_frequency = airtime_topup_frequency application\<rparr>)
                    | Some _ \<Rightarrow> users d)
      in if l_loan_id loan \<in> set (map l_loan_id (loans d)) then Inl Sqlite3Error
         else
           (let loans' = loans d @ [loan];
                g = (case user_gamification d uid of
                       None \<Rightarrow> \<lparr>repayment_streak = 0, points_earned = 0, badges_earned = []\<rparr>
                     | Some g \<Rightarrow> g);
                g' = g\<lparr>points_earned := points_earned g + points,
                       badges_earned := join_comma badges\<rparr>
            in Inr (d\<lparr>users := users', loans := loans',
                      user_gamification := (user_gamification d)(uid \<mapsto> g')\<rparr>)))"

text \<open>The body of the outer \<open>try\<close>.\<close>

definition apply_loan_try ::
  "artifacts \<Rightarrow> clock \<Rightarrow> db \<Rightarrow> LoanApplication \<Rightarrow> py_exn + (apply_response \<times> db)" where
  "apply_loan_try A now d application =
     (let features = [transaction_frequency application, avg_transaction_amount application,
                      utility_payment_consistency application,
                      airtime_topup_frequency application];
          features_scaled = scaler_transform A features;
          score = fmul (predict_proba A features_scaled) 100;
          decision = (if 70 < score then ''approve'' else ''deny'')
      in case shap_explanation A features_scaled of
           Inl e \<Rightarrow> Inl e
         | Inr explanation \<Rightarrow>
             (let points = 50;
                  badges = (if is_first_application d (user_id application)
                            then [''First Application''] else []);
                  loan_id = ''L'' @ user_id application @ ''_'' @ str_int (now_timestamp now)
              in case next_due_date (now_due now) of
                   Inl e \<Rightarrow> Inl e
                 | Inr due_date \<Rightarrow>
                     (case save_application d application
                             \<lparr>l_loan_id = loan_id, l_user_id = user_id application,
                              l_amount = loan_amount application, l_decision = decision,
                              l_score = score,
                              l_application_date = strftime_ymd (now_applied now),
                              l_due_date = due_date\<rparr>
                             points badges of
                        Inl e \<Rightarrow> (if e = Sqlite3Error then Inl (HTTPException 500) else Inl e)
                      | Inr d' \<Rightarrow>
                          Inr (\<lparr>ar_user_id = user_id application, ar_loan_id = loan_id,
                                ar_decision = decision, ar_score = score,
                                ar_explanation = explanation, ar_points_earned = points,
                                ar_badges_earned = badges,
                                ar_message = ''Loan '' @ decision @ ''! Repay by '' @ due_date
                                               @ '' to earn 50 points.''\<rparr>, d'))))"

text \<open>
  The handler: \<open>except Exception\<close> turns whatever the body raised, an \<open>HTTPException\<close>
  included, into an \<open>HTTPException\<close> with status 500.
\<close>

definition apply_loan ::
  "artifacts \<Rightarrow> clock \<Rightarrow> db \<Rightarrow> LoanApplication \<Rightarrow> (py_exn + apply_response) \<times> db" where
  "apply_loan A now d application =
     (case apply_loan_try A now d application of
        Inl e \<Rightarrow> (Inl (HTTPException 500), d)
      | Inr (response, d') \<Rightarrow> (Inr response, d'))"

subsection \<open>record_repayment\<close>

text \<open>
  The row read from \<open>user_gamification\<close>; when there is none, a zeroed row is inserted in
  the open transaction and the handler goes on with \<open>(0, 0, "")\<close>.
\<close>

definition select_gamification :: "db \<Rightarrow> string \<Rightarrow> gamification_row" where
  "select_gamification d uid =
     (case user_gamification d uid of
        None \<Rightarrow> \<lparr>repayment_streak = 0, points_earned = 0, badges_earned = []\<rparr>
      | Some g \<Rightarrow> g)"

text \<open>\<open>s.split(",") if s else []\<close>: the stored badge string as a list.\<close>

definition badge_list :: "string \<Rightarrow> string list" where
  "badge_list s = (if s \<noteq> [] then split_comma s else [])"

text \<open>
  The progression step of \<open>record_repayment\<close>: from the gamification row read (or the zeroed
  one just inserted) and the status to the new streak, the new points and the new badge list.
\<close>

definition advance :: "gamification_row \<Rightarrow> string \<Rightarrow> int \<times> int \<times> string list" where
  "advance gamification status =
     (let new_streak = (if status = ''on-time'' then repayment_streak gamification + 1 else 0);
          points = (if status = ''on-time'' then points_earned gamification + 50
                    else points_earned gamification);
          badges = badge_list (badges_earned gamification);
          (badges, points) =
            (if new_streak = 3 \<and> ''Consistent Payer'' \<notin> set badges
             then (badges @ [''Consistent Payer''], points + 100) else (badges, points));
          (badges, points) =
            (if new_streak = 5 \<and> ''Reliable Borrower'' \<notin> set badges
             then (badges @ [''Reliable Borrower''], points + 200) else (badges, points))
      in (new_streak, points, badges))"

text \<open>The \<open>badges_earned\<close> entry of the response.\<close>

definition response_badges :: "int \<Rightarrow> string list" where
  "response_badges new_streak =
     (if new_streak = 3 then [''Consistent Payer'']
      else if new_streak = 5 then [''Reliable Borrower''] else [])"

text \<open>
  The body of the \<open>try\<close>. The streak that the handler adds to \<open>user_data\<close> is not among the
  features it scores, so the new score depends on the stored features alone.
\<close>

definition record_repayment_try ::
  "artifacts \<Rightarrow> db \<Rightarrow> Repayment \<Rightarrow> py_exn + (repay_response \<times> db)" where
  "record_repayment_try A d repayment =
     (case find (\<lambda>l. l_loan_id l = r_loan_id repayment) (loans d) of
        None \<Rightarrow> Inl (HTTPException 400)
      | Some loan \<Rightarrow>
          if amount_mismatch (l_amount loan) (r_amount repayment)
          then Inl (HTTPException 400)
          else
            (case strptime_ymd (l_due_date loan) of
               Inl e \<Rightarrow> Inl e
             | Inr due_date \<Rightarrow>
                 (case strptime_ymd (r_payment_date repayment) of
                    Inl e \<Rightarrow> Inl e
                  | Inr payment_date \<Rightarrow>
                      (case add_days due_date 1 of
                         Inl e \<Rightarrow> Inl e
                       | Inr limit \<Rightarrow>
                           (let status = (if payment_date \<le> limit then ''on-time'' else ''late'');
                                gamification = select_gamification d (r_user_id repayment);
                                (new_streak, points, badges) = advance gamification status
                            in case fetch_user_data d (r_user_id repayment) of
                                 Inl e \<Rightarrow> Inl e
                               | Inr user_data \<Rightarrow>
                                   (let features =
                                          [u_transaction_frequency user_data,
                                           u_avg_transaction_amount user_data,
                                           u_utility_payment_consistency user_data,
                                           u_airtime_topup_frequency user_data];
                                        features_scaled = scaler_transform A features;
                                        new_score =
                                          fmul (predict_proba A features_scaled) 100;
                                        repayments' = repayments d @
                                          [\<lparr>p_user_id = r_user_id repayment,
                                            p_loan_id = r_loan_id repayment,
                                            p_payment_date = r_payment_date repayment,
                                            p_amount = r_amount repayment,
                                            p_status = status\<rparr>];
                                        g' = \<lparr>repayment_streak = new_streak,
                                              points_earned = points,
                                              badges_earned = join_comma badges\<rparr>
                                    in Inr (\<lparr>rr_user_id = r_user_id repayment,
                                             rr_loan_id = r_loan_id repayment,
                                             rr_status = status,
                                             rr_new_repayment_streak = new_streak,
                                             rr_points_earned =
                                               (if status = ''on-time'' then 50 else 0),
                                             rr_badges_earned = response_badges new_streak,
                                             rr_new_score = new_score,
                                             rr_message =
                                               (if status = ''on-time''
                                                then ''Repayment recorded! You earned 50 points and a badge.''
                                                else ''Repayment recorded.'')\<rparr>,
                                            d\<lparr>repayments := repayments',
                                              user_gamification :=
                                                (user_gamification d)
                                                  (r_user_id repayment \<mapsto> g')\<rparr>)))))))"

text \<open>
  The handler. \<open>except sqlite3.Error\<close> rolls back and raises status 500; \<open>except Exception\<close>
  catches every other exception, the \<open>HTTPException\<close>s raised in the body included, and
  raises status 500; the connection is then closed without a commit.
\<close>

definition record_repayment ::
  "artifacts \<Rightarrow> db \<Rightarrow> Repayment \<Rightarrow> (py_exn + repay_response) \<times> db" where
  "record_repayment A d repayment =
     (case record_repayment_try A d repayment of
        Inl e \<Rightarrow> (if e = Sqlite3Error then (Inl (HTTPException 500), d)
                  else (Inl (HTTPException 500), d))
      | Inr (response, d') \<Rightarrow> (Inr response, d'))"

subsection \<open>Histories of requests\<close>

text \<open>
  A history is a list of requests served one after the other, each on the database that the
  previous one left; a failed request leaves the database as it was.
\<close>

datatype request = Apply clock LoanApplication | Repay Repayment

fun serve :: "artifacts \<Rightarrow> db \<Rightarrow> request \<Rightarrow> db" where
  "serve A d (Apply now application) = snd (apply_loan A now d application)"
| "serve A d (Repay repayment) = snd (record_repayment A d repayment)"

definition run :: "artifacts \<Rightarrow> db \<Rightarrow> request list \<Rightarrow> db" where
  "run A d reqs = foldl (serve A) d reqs"

subsection \<open>A concrete scenario\<close>

text \<open>
  Fixed artifacts (a classifier that answers the double nearest 0.9, so that the score is
  90, and an explainer that answers four zeros; a second classifier answers the double next
  above 0.7, whose product with 100 rounds to 70), a
  first application of user \<open>u1\<close> on 2024-02-29 (ordinal 738945, so the loan is due on
  2024-03-30), a second application one second later with other feature values, and
  repayments of that first loan one day and two days after the due date.
\<close>

definition demo_artifacts :: artifacts where
  "demo_artifacts =
     \<lparr>scaler_transform = (\<lambda>x. x),
      predict_proba = (\<lambda>x. 8106479329266893 / 9007199254740992),
      explainer = (\<lambda>x. Some [0, 0, 0, 0])\<rparr>"

definition boundary_artifacts :: artifacts where
  "boundary_artifacts =
     demo_artifacts\<lparr>predict_proba := (\<lambda>x. 6305039478318695 / 9007199254740992)\<rparr>"

definition failing_explainer :: artifacts where
  "failing_explainer = demo_artifacts\<lparr>explainer := (\<lambda>x. None)\<rparr>"

definition clock1 :: clock where
  "clock1 = \<lparr>now_timestamp = 1709200000, now_due = 738945, now_applied = 738945\<rparr>"

definition clock2 :: clock where
  "clock2 = \<lparr>now_timestamp = 1709200001, now_due = 738945, now_applied = 738945\<rparr>"

definition application1 :: LoanApplication where
  "application1 =
     \<lparr>user_id = ''u1'', loan_amount = 1000, transaction_frequency = 15,
      avg_transaction_amount = 100, utility_payment_consistency = 0.5,
      airtime_topup_frequency = 8\<rparr>"

definition application2 :: LoanApplication where
  "application2 =
     \<lparr>user_id = ''u1'', loan_amount = 500, transaction_frequency = 2,
      avg_transaction_amount = 30, utility_payment_consistency = 0.25,
      airtime_topup_frequency = 1\<rparr>"

definition application_u2 :: LoanApplication where
  "application_u2 =
     \<lparr>user_id = ''u2'', loan_amount = 700, transaction_frequency = 4,
      avg_transaction_amount = 20, utility_payment_consistency = 0.5,
      airtime_topup_frequency = 3\<rparr>"

definition repay_on_time :: Repayment where
  "repay_on_time =
     \<lparr>r_user_id = ''u1'', r_loan_id = ''Lu1_1709200000'', r_payment_date = ''2024-03-31'',
      r_amount = 1000\<rparr>"

definition repay_late :: Repayment where
  "repay_late = repay_on_time\<lparr>r_payment_date := ''2024-04-01''\<rparr>"

definition repay_unknown_loan :: Repayment where
  "repay_unknown_loan = repay_on_time\<lparr>r_loan_id := ''L404''\<rparr>"

definition repay_wrong_amount :: Repayment where
  "repay_wrong_amount = repay_on_time\<lparr>r_amount := 999\<rparr>"

definition repay_bad_date :: Repayment where
  "repay_bad_date = repay_on_time\<lparr>r_payment_date := ''2024-02-30''\<rparr>"

definition repay_by_u2 :: Repayment where
  "repay_by_u2 = repay_on_time\<lparr>r_user_id := ''u2''\<rparr>"

section \<open>Properties\<close>

subsection \<open>Rounding\<close>

lemmas float_defs = round_double_def binade_def bit_length.simps pow2_def
  round_half_even_def Let_def fmul_def fsub_def is_double_def amount_mismatch_def

lemma bit_length_le: "n < 2 ^ k \<Longrightarrow> bit_length n \<le> k"
proof (induction k arbitrary: n)
  case 0
  then show ?case by (simp add: bit_length.simps)
next
  case (Suc k)
  then have "n div 2 < 2 ^ k" by simp
  then have "bit_length (n div 2) \<le> k" by (rule Suc.IH)
  then show ?case by (subst bit_length.simps) simp
qed

lemma binade_le_6:
  assumes "\<bar>x\<bar> \<le> 100"
  shows "binade x \<le> 6"
proof (cases "1 \<le> \<bar>x\<bar>")
  case True
  from assms have "\<lfloor>\<bar>x\<bar>\<rfloor> \<le> 100" by linarith
  then have "nat \<lfloor>\<bar>x\<bar>\<rfloor> < 128" by linarith
  then have "nat \<lfloor>\<bar>x\<bar>\<rfloor> < 2 ^ 7" by simp
  then have "bit_length (nat \<lfloor>\<bar>x\<bar>\<rfloor>) \<le> 7" by (rule bit_length_le)
  with True show ?thesis by (simp add: binade_def)
next
  case False
  then show ?thesis by (simp add: binade_def)
qed

lemma round_half_even_le:
  assumes "y \<le> of_int N"
  shows "round_half_even y \<le> N"
proof -
  have f: "\<lfloor>y\<rfloor> \<le> N" using assms by linarith
  show ?thesis
  proof (cases "y = of_int \<lfloor>y\<rfloor>")
    case True
    then have "y - of_int \<lfloor>y\<rfloor> < 1 / 2" by simp
    with f show ?thesis by (simp add: round_half_even_def Let_def)
  next
    case False
    then have "of_int \<lfloor>y\<rfloor> < y" using of_int_floor_le [of y] by linarith
    with assms have "(of_int \<lfloor>y\<rfloor> :: real) < of_int N" by linarith
    then have "\<lfloor>y\<rfloor> < N" by simp
    then show ?thesis by (simp add: round_half_even_def Let_def)
  qed
qed

lemma round_half_even_nonneg: "0 \<le> y \<Longrightarrow> 0 \<le> round_half_even y"
  by (auto simp: round_half_even_def Let_def)

lemma pow2_pos: "0 < pow2 e"
  by (simp add: pow2_def)

lemma round_double_range:
  assumes "0 \<le> x" and "x \<le> 100"
  shows "0 \<le> round_double x \<and> round_double x \<le> 100"
proof (cases "x = 0")
  case True
  then show ?thesis by (simp add: round_double_def)
next
  case False
  define e where "e = max (binade x) (- 1022) - 52"
  define q where "q = pow2 e"
  have q: "0 < q" unfolding q_def by (rule pow2_pos)
  have rd: "round_double x = of_int (round_half_even (x / q)) * q"
    using False by (simp add: round_double_def Let_def q_def e_def)
  from assms have "binade x \<le> 6" by (intro binade_le_6) simp
  then have e: "e < 0" unfolding e_def by simp
  then have qe: "q = 1 / 2 ^ nat (- e)" unfolding q_def pow2_def by simp
  have "x / q \<le> 100 / q" using assms(2) q by (simp add: divide_right_mono)
  also have "100 / q = of_int (100 * 2 ^ nat (- e))" unfolding qe by simp
  finally have "round_half_even (x / q) \<le> 100 * 2 ^ nat (- e)"
    by (rule round_half_even_le)
  then have "(of_int (round_half_even (x / q)) :: real) \<le> of_int (100 * 2 ^ nat (- e))"
    by (simp only: of_int_le_iff)
  then have "of_int (round_half_even (x / q)) * q \<le> of_int (100 * 2 ^ nat (- e)) * q"
    using q by (simp add: mult_right_mono)
  also have "of_int (100 * 2 ^ nat (- e)) * q = 100" unfolding qe by simp
  finally have up: "round_double x \<le> 100" unfolding rd .
  have "0 \<le> x / q" using assms(1) q by simp
  then have "0 \<le> round_half_even (x / q)" by (rule round_half_even_nonneg)
  then have "0 \<le> round_double x" unfolding rd using q by simp
  with up show ?thesis by simp
qed

text \<open>
  The tolerance test at the doubles nearest 0.07 and 0.06, whose difference rounds to a
  double above the double nearest 0.01, and at the doubles nearest 0.02 and 0.01, whose
  difference rounds to it.
\<close>

lemma amount_mismatch_7_6:
  "amount_mismatch (1261007895663739 / 18014398509481984)
     (1080863910568919 / 18014398509481984)"
  by (simp add: float_defs)

lemma amount_match_2_1:
  "\<not> amount_mismatch (5764607523034235 / 288230376151711744)
       (5764607523034235 / 576460752303423488)"
  by (simp add: float_defs)

subsection \<open>Strings and the progression step\<close>

lemma split_comma_nonempty: "split_comma s \<noteq> []"
  by (induction s) (auto split: list.splits)

lemma join_split_comma: "join_comma (split_comma s) = s"
proof (induction s)
  case Nil
  then show ?case by simp
next
  case (Cons c cs)
  show ?case
  proof (cases "split_comma cs")
    case Nil
    then show ?thesis using split_comma_nonempty by blast
  next
    case (Cons w ws)
    then show ?thesis using Cons.IH
      by (cases ws) auto
  qed
qed

lemma join_badge_list: "join_comma (badge_list s) = s"
  by (simp add: badge_list_def join_split_comma)

text \<open>
  The stored badge string and the list of badges determine each other: a list of names
  without commas, other than the list of one empty name, is what \<open>badge_list\<close> reads back
  from its join, and every string is the join of the list that \<open>badge_list\<close> reads.
\<close>

lemma split_comma_single: "CHR '','' \<notin> set w \<Longrightarrow> split_comma w = [w]"
  by (induction w) auto

lemma split_comma_field:
  "CHR '','' \<notin> set w \<Longrightarrow> split_comma (w @ CHR '','' # s) = w # split_comma s"
  by (induction w) auto

lemma split_join_comma:
  "bs \<noteq> [] \<Longrightarrow> \<forall>b \<in> set bs. CHR '','' \<notin> set b \<Longrightarrow> split_comma (join_comma bs) = bs"
proof (induction bs rule: join_comma.induct)
  case 1
  then show ?case by simp
next
  case (2 w)
  then show ?case by (simp add: split_comma_single)
next
  case (3 w v ws)
  then show ?case by (simp add: split_comma_field)
qed

lemma join_comma_empty:
  "join_comma bs = [] \<Longrightarrow> bs = [] \<or> bs = [[]]"
  by (induction bs rule: join_comma.induct) auto

lemma badge_list_join:
  assumes "\<forall>b \<in> set bs. CHR '','' \<notin> set b" and "bs \<noteq> [[]]"
  shows "badge_list (join_comma bs) = bs"
proof (cases "bs = []")
  case True
  then show ?thesis by (simp add: badge_list_def)
next
  case False
  with assms(2) join_comma_empty [of bs] have "join_comma bs \<noteq> []" by blast
  with False assms(1) show ?thesis
    by (simp add: badge_list_def split_join_comma)
qed

lemma split_comma_fields: "b \<in> set (split_comma s) \<Longrightarrow> CHR '','' \<notin> set b"
proof (induction s arbitrary: b)
  case Nil
  then show ?case by simp
next
  case (Cons c cs)
  then show ?case
    by (cases "split_comma cs") (auto split: if_splits)
qed

lemma badge_list_decodes:
  "join_comma (badge_list s) = s \<and> (\<forall>b \<in> set (badge_list s). CHR '','' \<notin> set b)
   \<and> badge_list s \<noteq> [[]]"
proof -
  have "badge_list s \<noteq> [[]]"
  proof
    assume h: "badge_list s = [[]]"
    then have "join_comma (badge_list s) = []" by simp
    then have "s = []" by (simp add: join_badge_list)
    with h show False by (simp add: badge_list_def)
  qed
  moreover have "\<forall>b \<in> set (badge_list s). CHR '','' \<notin> set b"
    by (auto simp: badge_list_def dest: split_comma_fields)
  ultimately show ?thesis
    by (simp add: join_badge_list)
qed

lemma advance_on_time:
  "advance g ''on-time'' =
     (let bs = badge_list (badges_earned g);
          cp = (repayment_streak g + 1 = 3 \<and> ''Consistent Payer'' \<notin> set bs);
          rb = (repayment_streak g + 1 = 5 \<and> ''Reliable Borrower'' \<notin> set bs)
      in (repayment_streak g + 1,
          points_earned g + 50 + (if cp then 100 else 0) + (if rb then 200 else 0),
          bs @ (if cp then [''Consistent Payer''] else [])
             @ (if rb then [''Reliable Borrower''] else [])))"
  by (simp add: advance_def Let_def)

lemma advance_late:
  "advance g ''late'' = (0, points_earned g, badge_list (badges_earned g))"
  by (simp add: advance_def Let_def)

subsection \<open>When record_repayment succeeds\<close>

lemma add_days_Inr: "add_days d k = Inr x \<Longrightarrow> x = d + k"
  by (auto simp: add_days_def split: if_splits)

lemma record_repayment_InrD:
  assumes "record_repayment A d r = (Inr resp, d')"
  shows "\<exists>loan due pay deadline u.
           find (\<lambda>l. l_loan_id l = r_loan_id r) (loans d) = Some loan
         \<and> \<not> amount_mismatch (l_amount loan) (r_amount r)
         \<and> strptime_ymd (l_due_date loan) = Inr due
         \<and> strptime_ymd (r_payment_date r) = Inr pay
         \<and> add_days due 1 = Inr deadline
         \<and> users d (r_user_id r) = Some u"
  using assms
  unfolding record_repayment_def record_repayment_try_def fetch_user_data_def
  by (auto simp: Let_def split: option.splits sum.splits if_splits prod.splits)

lemma record_repayment_success:
  assumes "find (\<lambda>l. l_loan_id l = r_loan_id r) (loans d) = Some loan"
    and "\<not> amount_mismatch (l_amount loan) (r_amount r)"
    and "strptime_ymd (l_due_date loan) = Inr due"
    and "strptime_ymd (r_payment_date r) = Inr pay"
    and "add_days due 1 = Inr deadline"
    and "users d (r_user_id r) = Some u"
  shows "record_repayment A d r =
    (let status = (if pay \<le> deadline then ''on-time'' else ''late'');
         adv = advance (select_gamification d (r_user_id r)) status
     in (Inr \<lparr>rr_user_id = r_user_id r, rr_loan_id = r_loan_id r, rr_status = status,
              rr_new_repayment_streak = fst adv,
              rr_points_earned = (if status = ''on-time'' then 50 else 0),
              rr_badges_earned = response_badges (fst adv),
              rr_new_score = fmul (predict_proba A (scaler_transform A
                 [u_transaction_frequency u, u_avg_transaction_amount u,
                  u_utility_payment_consistency u, u_airtime_topup_frequency u])) 100,
              rr_message = (if status = ''on-time''
                            then ''Repayment recorded! You earned 50 points and a badge.''
                            else ''Repayment recorded.'')\<rparr>,
         d\<lparr>repayments := repayments d @
              [\<lparr>p_user_id = r_user_id r, p_loan_id = r_loan_id r,
                p_payment_date = r_payment_date r, p_amount = r_amount r,
                p_status = status\<rparr>],
           user_gamification := (user_gamification d)(r_user_id r \<mapsto>
              \<lparr>repayment_streak = fst adv, points_earned = fst (snd adv),
               badges_earned = join_comma (snd (snd adv))\<rparr>)\<rparr>))"
  using assms
  unfolding record_repayment_def record_repayment_try_def fetch_user_data_def
  by (simp add: Let_def split: prod.splits)

subsection \<open>When apply_loan succeeds\<close>

lemma apply_loan_InrD:
  assumes "apply_loan A now d a = (Inr resp, d')"
  shows "\<exists>explanation due_date.
           shap_explanation A (scaler_transform A
             [transaction_frequency a, avg_transaction_amount a,
              utility_payment_consistency a, airtime_topup_frequency a]) = Inr explanation
         \<and> next_due_date (now_due now) = Inr due_date
         \<and> ''L'' @ user_id a @ ''_'' @ str_int (now_timestamp now)
             \<notin> set (map l_loan_id (loans d))"
  using assms
  unfolding apply_loan_def apply_loan_try_def save_application_def
  by (auto simp: Let_def split: sum.splits if_splits prod.splits)

lemma apply_loan_success:
  assumes "shap_explanation A (scaler_transform A
             [transaction_frequency a, avg_transaction_amount a,
              utility_payment_consistency a, airtime_topup_frequency a]) = Inr explanation"
    and "next_due_date (now_due now) = Inr due_date"
    and "''L'' @ user_id a @ ''_'' @ str_int (now_timestamp now)
             \<notin> set (map l_loan_id (loans d))"
  shows "apply_loan A now d a =
    (let score = fmul (predict_proba A (scaler_transform A
             [transaction_frequency a, avg_transaction_amount a,
              utility_payment_consistency a, airtime_topup_frequency a])) 100;
         decision = (if 70 < score then ''approve'' else ''deny'');
         badges = (if is_first_application d (user_id a) then [''First Application''] else []);
         loan_id = ''L'' @ user_id a @ ''_'' @ str_int (now_timestamp now);
         g = select_gamification d (user_id a)
     in (Inr \<lparr>ar_user_id = user_id a, ar_loan_id = loan_id, ar_decision = decision,
              ar_score = score, ar_explanation = explanation, ar_points_earned = 50,
              ar_badges_earned = badges,
              ar_message = ''Loan '' @ decision @ ''! Repay by '' @ due_date
                             @ '' to earn 50 points.''\<rparr>,
         d\<lparr>users := (case users d (user_id a) of
                        None \<Rightarrow> (users d)(user_id a \<mapsto>
                          \<lparr>u_transaction_frequency = transaction_frequency a,
                           u_avg_transaction_amount = avg_transaction_amount a,
                           u_utility_payment_consistency = utility_payment_consistency a,
                           u_airtime_topup_frequency = airtime_topup_frequency a\<rparr>)
                      | Some _ \<Rightarrow> users d),
           loans := loans d @
             [\<lparr>l_loan_id = loan_id, l_user_id = user_id a, l_amount = loan_amount a,
               l_decision = decision, l_score = score,
               l_application_date = strftime_ymd (now_applied now),
               l_due_date = due_date\<rparr>],
           user_gamification := (user_gamification d)(user_id a \<mapsto>
             g\<lparr>points_earned := points_earned g + 50,
               badges_earned := join_comma badges\<rparr>)\<rparr>))"
  using assms
  unfolding apply_loan_def apply_loan_try_def save_application_def select_gamification_def
  by (simp add: Let_def)

lemma apply_loan_failure:
  "apply_loan A now d a = (Inl e, d') \<Longrightarrow> e = HTTPException 500 \<and> d' = d"
  unfolding apply_loan_def
  by (auto split: sum.splits prod.splits)

lemma record_repayment_failure:
  "record_repayment A d r = (Inl e, d') \<Longrightarrow> e = HTTPException 500 \<and> d' = d"
  unfolding record_repayment_def
  by (auto split: sum.splits prod.splits if_splits)

subsection \<open>Facts of the scenario\<close>

lemmas date_defs = strptime_ymd_def parse_digits_def digit_val_def digit_table_def
  days_in_month_def is_leap_def ymd2ord_def days_before_year_def days_before_month_def

lemmas strftime_defs = strftime_ymd_def ord2ymd_def Let_def days_before_month_def
  days_in_month_def is_leap_def zero_pad_def str_nat.simps digit_char_def

lemma due_2024_03_30: "strptime_ymd ''2024-03-30'' = Inr 738975"
  by (simp add: date_defs)

lemma pay_2024_03_31: "strptime_ymd ''2024-03-31'' = Inr 738976"
  by (simp add: date_defs)

lemma pay_2024_04_01: "strptime_ymd ''2024-04-01'' = Inr 738977"
  by (simp add: date_defs)

lemma pay_2024_02_30: "strptime_ymd ''2024-02-30'' = Inl ValueError"
  by (simp add: date_defs)

lemma next_due_738945: "next_due_date 738945 = Inr ''2024-03-30''"
  by (simp add: next_due_date_def add_days_def MAXORDINAL_def strftime_defs)

lemma applied_738945: "strftime_ymd 738945 = ''2024-02-29''"
  by (simp add: strftime_defs)

lemma str_timestamp1: "str_int 1709200000 = ''1709200000''"
  by (simp add: str_int_def str_nat.simps digit_char_def)

lemma str_timestamp2: "str_int 1709200001 = ''1709200001''"
  by (simp add: str_int_def str_nat.simps digit_char_def)

lemmas scenario_defs = apply_loan_def apply_loan_try_def shap_explanation_def
  float_defs demo_artifacts_def boundary_artifacts_def failing_explainer_def clock1_def clock2_def application1_def
  application2_def application_u2_def empty_db_def is_first_application_def
  next_due_738945 applied_738945 str_timestamp1 str_timestamp2 save_application_def Let_def
  record_repayment_def record_repayment_try_def fetch_user_data_def select_gamification_def
  advance_def badge_list_def response_badges_def repay_on_time_def repay_late_def
  repay_unknown_loan_def repay_wrong_amount_def repay_bad_date_def repay_by_u2_def
  due_2024_03_30 pay_2024_03_31 pay_2024_04_01 pay_2024_02_30 add_days_def MAXORDINAL_def
  run_def

subsection \<open>The users table\<close>

lemma apply_loan_users:
  "users d uid = Some u \<Longrightarrow> users (snd (apply_loan A now d a)) uid = Some u"
  unfolding apply_loan_def apply_loan_try_def save_application_def
  by (auto simp: Let_def split: sum.splits option.splits prod.splits if_splits)

lemma record_repayment_users:
  "users (snd (record_repayment A d r)) = users d"
  unfolding record_repayment_def record_repayment_try_def
  by (auto simp: Let_def split: sum.splits option.splits prod.splits if_splits)

lemma serve_users:
  "users d uid = Some u \<Longrightarrow> users (serve A d req) uid = Some u"
  by (cases req) (simp_all add: apply_loan_users record_repayment_users)

lemma run_users:
  "users d uid = Some u \<Longrightarrow> users (run A d reqs) uid = Some u"
  unfolding run_def
  by (induction reqs arbitrary: d) (simp_all add: serve_users)

subsection \<open>What apply_loan stores as badges\<close>

text \<open>
  The \<open>UPDATE\<close> of \<open>apply_loan\<close> sets \<open>badges_earned\<close> to the badges of this application
  alone: "First Application" on the first one, the empty string afterwards.
\<close>

lemma apply_loan_overwrites_badges:
  assumes "apply_loan A now d a = (Inr resp, d')"
  shows "user_gamification d' (user_id a) =
           Some ((select_gamification d (user_id a))
                   \<lparr>points_earned := points_earned (select_gamification d (user_id a)) + 50,
                    badges_earned := (if is_first_application d (user_id a)
                                      then ''First Application'' else [])\<rparr>)"
proof -
  from apply_loan_InrD [OF assms] obtain explanation due_date where
    k: "shap_explanation A (scaler_transform A
             [transaction_frequency a, avg_transaction_amount a,
              utility_payment_consistency a, airtime_topup_frequency a]) = Inr explanation"
       "next_due_date (now_due now) = Inr due_date"
       "''L'' @ user_id a @ ''_'' @ str_int (now_timestamp now)
             \<notin> set (map l_loan_id (loans d))"
    by blast
  from assms apply_loan_success [OF k] show ?thesis
    by (auto simp: Let_def)
qed

section \<open>The claims\<close>

subsection \<open>C1: the repayment progression\<close>

text \<open>
  Claim C1. Let the badges stored for the request's user be the names \<open>bs\<close>, joined by
  commas (the zeroed row with no badges when the user has no row). Whenever
  \<open>record_repayment\<close> succeeds, the row it stores for that user is as follows. On an
  on-time repayment the streak is the old streak plus 1 and the points grow by 50, by 100
  more with the badge "Consistent Payer" appended when the new streak is 3 and that badge
  is not among \<open>bs\<close>, and by 200 more with "Reliable Borrower" appended when the new
  streak is 5 and that badge is not among \<open>bs\<close>. On a late repayment the streak is 0 and
  the points and the stored badges are unchanged. The status is one of the two. Every
  stored string is such a join, of exactly one list \<open>bs\<close> (\<open>badge_list_decodes\<close>,
  \<open>badge_list_join\<close>), so this covers every state. The witness grants the badge at a
  streak of 3 with one badge stored, and does not grant it again at a second streak of 3
  with both badges stored.
\<close>

theorem repayment_progression:
  assumes "record_repayment A d r = (Inr resp, d')"
    and "badges_earned (select_gamification d (r_user_id r)) = join_comma bs"
    and "\<forall>b \<in> set bs. CHR '','' \<notin> set b"
    and "bs \<noteq> [[]]"
  shows "(let g = select_gamification d (r_user_id r);
              cp = (repayment_streak g + 1 = 3 \<and> ''Consistent Payer'' \<notin> set bs);
              rb = (repayment_streak g + 1 = 5 \<and> ''Reliable Borrower'' \<notin> set bs)
          in (rr_status resp = ''on-time'' \<or> rr_status resp = ''late'')
           \<and> (rr_status resp = ''on-time'' \<longrightarrow>
                user_gamification d' (r_user_id r) =
                  Some \<lparr>repayment_streak = repayment_streak g + 1,
                        points_earned = points_earned g + 50 + (if cp then 100 else 0)
                                          + (if rb then 200 else 0),
                        badges_earned = join_comma
                          (bs @ (if cp then [''Consistent Payer''] else [])
                              @ (if rb then [''Reliable Borrower''] else []))\<rparr>)
           \<and> (rr_status resp = ''late'' \<longrightarrow>
                user_gamification d' (r_user_id r) =
                  Some \<lparr>repayment_streak = 0, points_earned = points_earned g,
                        badges_earned = join_comma bs\<rparr>))"
proof -
  from record_repayment_InrD [OF assms(1)] obtain loan due pay deadline u where
    h: "find (\<lambda>l. l_loan_id l = r_loan_id r) (loans d) = Some loan"
       "\<not> amount_mismatch (l_amount loan) (r_amount r)"
       "strptime_ymd (l_due_date loan) = Inr due"
       "strptime_ymd (r_payment_date r) = Inr pay"
       "add_days due 1 = Inr deadline"
       "users d (r_user_id r) = Some u"
    by blast
  have bl: "badge_list (badges_earned (select_gamification d (r_user_id r))) = bs"
    unfolding assms(2) using assms(3,4) by (rule badge_list_join)
  show ?thesis
  proof (cases "pay \<le> deadline")
    case True
    with assms(1) record_repayment_success [OF h, of A] show ?thesis
      by (auto simp: Let_def advance_on_time bl)
  next
    case False
    with assms(1) record_repayment_success [OF h, of A] show ?thesis
      by (auto simp: Let_def advance_late bl)
  qed
qed


theorem repayment_progression_witness:
  "(\<exists>resp d'.
     record_repayment demo_artifacts
       (run demo_artifacts empty_db
          [Apply clock1 application1, Repay repay_on_time, Repay repay_on_time])
       repay_on_time = (Inr resp, d')
   \<and> rr_status resp = ''on-time''
   \<and> user_gamification d' ''u1'' =
       Some \<lparr>repayment_streak = 3, points_earned = 300,
             badges_earned = ''First Application,Consistent Payer''\<rparr>)
 \<and> (\<exists>resp d'.
     user_gamification
       (run demo_artifacts empty_db
          [Apply clock1 application1, Repay repay_on_time, Repay repay_on_time,
           Repay repay_on_time, Repay repay_late, Repay repay_on_time, Repay repay_on_time])
       ''u1'' =
       Some \<lparr>repayment_streak = 2, points_earned = 400,
             badges_earned = join_comma [''First Application'', ''Consistent Payer'']\<rparr>
   \<and> record_repayment demo_artifacts
       (run demo_artifacts empty_db
          [Apply clock1 application1, Repay repay_on_time, Repay repay_on_time,
           Repay repay_on_time, Repay repay_late, Repay repay_on_time, Repay repay_on_time])
       repay_on_time = (Inr resp, d')
   \<and> rr_status resp = ''on-time''
   \<and> user_gamification d' ''u1'' =
       Some \<lparr>repayment_streak = 3, points_earned = 450,
             badges_earned = ''First Application,Consistent Payer''\<rparr>)"
proof -
  define d where "d = run demo_artifacts empty_db
          [Apply clock1 application1, Repay repay_on_time, Repay repay_on_time]"
  define k where "k = run demo_artifacts empty_db
          [Apply clock1 application1, Repay repay_on_time, Repay repay_on_time,
           Repay repay_on_time, Repay repay_late, Repay repay_on_time, Repay repay_on_time]"
  have u: "r_user_id repay_on_time = ''u1''"
    by (simp add: repay_on_time_def)
  have g: "select_gamification d ''u1'' =
      \<lparr>repayment_streak = 2, points_earned = 150,
       badges_earned = join_comma [''First Application'']\<rparr>"
    unfolding d_def by (simp add: scenario_defs)
  have "\<exists>resp d'. record_repayment demo_artifacts d repay_on_time = (Inr resp, d')
          \<and> rr_status resp = ''on-time''"
    unfolding d_def by (simp add: scenario_defs)
  then obtain resp d' where
    e: "record_repayment demo_artifacts d repay_on_time = (Inr resp, d')"
    and st: "rr_status resp = ''on-time''"
    by blast
  have b1: "badges_earned (select_gamification d (r_user_id repay_on_time)) =
      join_comma [''First Application'']"
    by (simp add: u g)
  have w1: "\<forall>b \<in> set [''First Application'']. CHR '','' \<notin> set b"
    by simp
  have n1: "[''First Application''] \<noteq> [[]]"
    by simp
  have first: "user_gamification d' ''u1'' =
       Some \<lparr>repayment_streak = 3, points_earned = 300,
             badges_earned = ''First Application,Consistent Payer''\<rparr>"
    using repayment_progression [OF e b1 w1 n1] st
    by (simp add: u g Let_def)
  have gk: "user_gamification k ''u1'' =
       Some \<lparr>repayment_streak = 2, points_earned = 400,
             badges_earned = join_comma [''First Application'', ''Consistent Payer'']\<rparr>"
    unfolding k_def by (simp add: scenario_defs)
  then have sk: "select_gamification k ''u1'' =
       \<lparr>repayment_streak = 2, points_earned = 400,
        badges_earned = join_comma [''First Application'', ''Consistent Payer'']\<rparr>"
    by (simp add: select_gamification_def)
  have "\<exists>resp d'. record_repayment demo_artifacts k repay_on_time = (Inr resp, d')
          \<and> rr_status resp = ''on-time''
          \<and> badges_earned (select_gamification d' ''u1'') =
              ''First Application,Consistent Payer''"
    unfolding k_def by (simp add: scenario_defs)
  then obtain resp2 d2 where
    e2: "record_repayment demo_artifacts k repay_on_time = (Inr resp2, d2)"
    and st2: "rr_status resp2 = ''on-time''"
    by blast
  have b2: "badges_earned (select_gamification k (r_user_id repay_on_time)) =
      join_comma [''First Application'', ''Consistent Payer'']"
    by (simp only: u sk gamification_row.simps)
  have w2: "\<forall>b \<in> set [''First Application'', ''Consistent Payer'']. CHR '','' \<notin> set b"
    by simp
  have n2: "[''First Application'', ''Consistent Payer''] \<noteq> [[]]"
    by simp
  have second: "user_gamification d2 ''u1'' =
       Some \<lparr>repayment_streak = 3, points_earned = 450,
             badges_earned = ''First Application,Consistent Payer''\<rparr>"
    using repayment_progression [OF e2 b2 w2 n2] st2
    by (simp add: u sk Let_def)
  from e st first gk e2 st2 second show ?thesis
    unfolding d_def k_def by blast
qed

subsection \<open>C3: the decision threshold\<close>

text \<open>
  Claim C3. For every loan application that is processed, the decision returned and stored
  is "approve" exactly when the computed score is strictly greater than 70 (and "deny"
  otherwise). The score is the float product of the classifier's probability and 100, and
  it lies between 0 and 100 when the probability lies between 0 and 1.
\<close>

theorem decision_threshold:
  assumes "apply_loan A now d a = (Inr resp, d')"
    and "0 \<le> predict_proba A (scaler_transform A
             [transaction_frequency a, avg_transaction_amount a,
              utility_payment_consistency a, airtime_topup_frequency a])"
    and "predict_proba A (scaler_transform A
             [transaction_frequency a, avg_transaction_amount a,
              utility_payment_consistency a, airtime_topup_frequency a]) \<le> 1"
  shows "(ar_decision resp = ''approve'' \<longleftrightarrow> 70 < ar_score resp)
       \<and> (ar_decision resp = ''deny'' \<longleftrightarrow> \<not> 70 < ar_score resp)
       \<and> 0 \<le> ar_score resp \<and> ar_score resp \<le> 100
       \<and> ar_score resp = fmul (predict_proba A (scaler_transform A
             [transaction_frequency a, avg_transaction_amount a,
              utility_payment_consistency a, airtime_topup_frequency a])) 100
       \<and> (\<exists>loan. loans d' = loans d @ [loan] \<and> l_decision loan = ar_decision resp
                 \<and> l_score loan = ar_score resp)"
proof -
  from apply_loan_InrD [OF assms(1)] obtain explanation due_date where
    h: "shap_explanation A (scaler_transform A
             [transaction_frequency a, avg_transaction_amount a,
              utility_payment_consistency a, airtime_topup_frequency a]) = Inr explanation"
       "next_due_date (now_due now) = Inr due_date"
       "''L'' @ user_id a @ ''_'' @ str_int (now_timestamp now)
             \<notin> set (map l_loan_id (loans d))"
    by blast
  define p where "p = predict_proba A (scaler_transform A
             [transaction_frequency a, avg_transaction_amount a,
              utility_payment_consistency a, airtime_topup_frequency a])"
  define sc where "sc = fmul p 100"
  from assms(1) apply_loan_success [OF h]
  have score: "ar_score resp = sc"
    and decision: "ar_decision resp = (if 70 < sc then ''approve'' else ''deny'')"
    and loans: "loans d' = loans d @
             [\<lparr>l_loan_id = ''L'' @ user_id a @ ''_'' @ str_int (now_timestamp now),
               l_user_id = user_id a, l_amount = loan_amount a,
               l_decision = ar_decision resp, l_score = ar_score resp,
               l_application_date = strftime_ymd (now_applied now),
               l_due_date = due_date\<rparr>]"
    unfolding sc_def p_def by (auto simp: Let_def)
  from assms(2,3) have "0 \<le> p * 100" "p * 100 \<le> 100"
    unfolding p_def by simp_all
  then have range: "0 \<le> sc \<and> sc \<le> 100"
    unfolding sc_def fmul_def by (rule round_double_range)
  have "ar_decision resp = ''approve'' \<longleftrightarrow> 70 < ar_score resp"
    unfolding score decision by simp
  moreover have "ar_decision resp = ''deny'' \<longleftrightarrow> \<not> 70 < ar_score resp"
    unfolding score decision by simp
  moreover have "\<exists>loan. loans d' = loans d @ [loan] \<and> l_decision loan = ar_decision resp
                 \<and> l_score loan = ar_score resp"
    using loans by simp
  ultimately show ?thesis
    using range score unfolding sc_def p_def by simp
qed

text \<open>
  The witness has two applications: one with probability the double nearest 0.9, approved
  with score 90, and one with probability the double next above 0.7, whose product with
  100 rounds to the score 70, which is denied.
\<close>

theorem decision_threshold_witness:
  "(\<exists>resp d'.
      apply_loan demo_artifacts clock1 empty_db application1 = (Inr resp, d')
    \<and> ar_decision resp = ''approve'' \<and> ar_score resp = 90
    \<and> (\<exists>loan. loans d' = [loan] \<and> l_decision loan = ''approve''))
 \<and> (\<exists>resp d'.
      apply_loan boundary_artifacts clock1 empty_db application1 = (Inr resp, d')
    \<and> 7 / 10 < predict_proba boundary_artifacts (scaler_transform boundary_artifacts
             [transaction_frequency application1, avg_transaction_amount application1,
              utility_payment_consistency application1, airtime_topup_frequency application1])
    \<and> ar_decision resp = ''deny'' \<and> ar_score resp = 70
    \<and> (\<exists>loan. loans d' = [loan] \<and> l_decision loan = ''deny''))"
proof -
  have "\<exists>resp d'. apply_loan demo_artifacts clock1 empty_db application1 = (Inr resp, d')
          \<and> ar_score resp = 90"
    by (simp add: scenario_defs)
  then obtain resp d' where
    e: "apply_loan demo_artifacts clock1 empty_db application1 = (Inr resp, d')"
    and sc: "ar_score resp = 90"
    by blast
  have p0: "0 \<le> predict_proba demo_artifacts (scaler_transform demo_artifacts
             [transaction_frequency application1, avg_transaction_amount application1,
              utility_payment_consistency application1, airtime_topup_frequency application1])"
    by (simp add: demo_artifacts_def)
  have p1: "predict_proba demo_artifacts (scaler_transform demo_artifacts
             [transaction_frequency application1, avg_transaction_amount application1,
              utility_payment_consistency application1, airtime_topup_frequency application1]) \<le> 1"
    by (simp add: demo_artifacts_def)
  have first: "ar_decision resp = ''approve'' \<and> ar_score resp = 90
   \<and> (\<exists>loan. loans d' = [loan] \<and> l_decision loan = ''approve'')"
    using decision_threshold [OF e p0 p1] sc
    by (auto simp: empty_db_def)
  have "\<exists>resp d'. apply_loan boundary_artifacts clock1 empty_db application1 = (Inr resp, d')
          \<and> ar_score resp = 70"
    by (simp add: scenario_defs)
  then obtain resp2 d2 where
    e2: "apply_loan boundary_artifacts clock1 empty_db application1 = (Inr resp2, d2)"
    and sc2: "ar_score resp2 = 70"
    by blast
  have q0: "0 \<le> predict_proba boundary_artifacts (scaler_transform boundary_artifacts
             [transaction_frequency application1, avg_transaction_amount application1,
              utility_payment_consistency application1, airtime_topup_frequency application1])"
    by (simp add: boundary_artifacts_def demo_artifacts_def)
  have q1: "predict_proba boundary_artifacts (scaler_transform boundary_artifacts
             [transaction_frequency application1, avg_transaction_amount application1,
              utility_payment_consistency application1, airtime_topup_frequency application1]) \<le> 1"
    by (simp add: boundary_artifacts_def demo_artifacts_def)
  have q2: "7 / 10 < predict_proba boundary_artifacts (scaler_transform boundary_artifacts
             [transaction_frequency application1, avg_transaction_amount application1,
              utility_payment_consistency application1, airtime_topup_frequency application1])"
    by (simp add: boundary_artifacts_def demo_artifacts_def)
  have second: "ar_decision resp2 = ''deny'' \<and> ar_score resp2 = 70
   \<and> (\<exists>loan. loans d2 = [loan] \<and> l_decision loan = ''deny'')"
    using decision_threshold [OF e2 q0 q1] sc2
    by (auto simp: empty_db_def)
  from e first e2 q2 second show ?thesis by blast
qed

subsection \<open>C4: the repayment status\<close>

text \<open>
  Claim C4. For every repayment that is recorded, the status stored in the new repayments
  row is "on-time" exactly when the payment date is at most one day after the due date of
  the loan, and "late" exactly when it is later than that. At the boundary: a payment one
  day after the due date is on time, a payment two days after it is late.
\<close>

theorem repayment_status:
  assumes "record_repayment A d r = (Inr resp, d')"
  shows "\<exists>loan due pay row.
           find (\<lambda>l. l_loan_id l = r_loan_id r) (loans d) = Some loan
         \<and> strptime_ymd (l_due_date loan) = Inr due
         \<and> strptime_ymd (r_payment_date r) = Inr pay
         \<and> repayments d' = repayments d @ [row]
         \<and> p_loan_id row = r_loan_id r
         \<and> p_payment_date row = r_payment_date r
         \<and> p_status row = rr_status resp
         \<and> (p_status row = ''on-time'' \<longleftrightarrow> pay \<le> due + 1)
         \<and> (p_status row = ''late'' \<longleftrightarrow> due + 1 < pay)"
proof -
  from record_repayment_InrD [OF assms] obtain loan due pay deadline u where
    h: "find (\<lambda>l. l_loan_id l = r_loan_id r) (loans d) = Some loan"
       "\<not> amount_mismatch (l_amount loan) (r_amount r)"
       "strptime_ymd (l_due_date loan) = Inr due"
       "strptime_ymd (r_payment_date r) = Inr pay"
       "add_days due 1 = Inr deadline"
       "users d (r_user_id r) = Some u"
    by blast
  have dl: "deadline = due + 1"
    using h(5) by (rule add_days_Inr)
  define status where "status = (if pay \<le> deadline then ''on-time'' else ''late'')"
  define row where "row = \<lparr>p_user_id = r_user_id r, p_loan_id = r_loan_id r,
                p_payment_date = r_payment_date r, p_amount = r_amount r,
                p_status = status\<rparr>"
  from assms record_repayment_success [OF h, of A]
  have "repayments d' = repayments d @ [row]" and "rr_status resp = status"
    unfolding row_def status_def by (auto simp: Let_def)
  moreover have "p_status row = ''on-time'' \<longleftrightarrow> pay \<le> due + 1"
    unfolding row_def status_def dl by simp
  moreover have "p_status row = ''late'' \<longleftrightarrow> due + 1 < pay"
    unfolding row_def status_def dl by auto
  moreover have "p_loan_id row = r_loan_id r" "p_payment_date row = r_payment_date r"
    "p_status row = status"
    unfolding row_def by simp_all
  ultimately show ?thesis
    using h(1,3,4) by auto
qed

theorem repayment_status_witness:
  "(\<exists>resp d' row.
      record_repayment demo_artifacts
        (run demo_artifacts empty_db [Apply clock1 application1]) repay_on_time = (Inr resp, d')
    \<and> strptime_ymd (r_payment_date repay_on_time) = Inr (738975 + 1)
    \<and> repayments d' = [row] \<and> p_status row = ''on-time'')
 \<and> (\<exists>resp d' row.
      record_repayment demo_artifacts
        (run demo_artifacts empty_db [Apply clock1 application1]) repay_late = (Inr resp, d')
    \<and> strptime_ymd (r_payment_date repay_late) = Inr (738975 + 2)
    \<and> repayments d' = [row] \<and> p_status row = ''late'')"
proof -
  define d where "d = run demo_artifacts empty_db [Apply clock1 application1]"
  have loan: "find (\<lambda>l. l_loan_id l = ''Lu1_1709200000'') (loans d) =
      Some \<lparr>l_loan_id = ''Lu1_1709200000'', l_user_id = ''u1'', l_amount = 1000,
            l_decision = ''approve'', l_score = 90, l_application_date = ''2024-02-29'',
            l_due_date = ''2024-03-30''\<rparr>"
    and reps: "repayments d = []"
    unfolding d_def by (simp_all add: scenario_defs)
  have "\<exists>resp d'. record_repayment demo_artifacts d repay_on_time = (Inr resp, d')"
    unfolding d_def by (simp add: scenario_defs)
  then obtain resp1 d1 where
    e1: "record_repayment demo_artifacts d repay_on_time = (Inr resp1, d1)"
    by blast
  have "\<exists>resp d'. record_repayment demo_artifacts d repay_late = (Inr resp, d')"
    unfolding d_def by (simp add: scenario_defs)
  then obtain resp2 d2 where
    e2: "record_repayment demo_artifacts d repay_late = (Inr resp2, d2)"
    by blast
  have p1: "strptime_ymd (r_payment_date repay_on_time) = Inr (738975 + 1)"
    by (simp add: repay_on_time_def pay_2024_03_31)
  have p2: "strptime_ymd (r_payment_date repay_late) = Inr (738975 + 2)"
    by (simp add: repay_late_def repay_on_time_def pay_2024_04_01)
  have "\<exists>row. repayments d1 = [row] \<and> p_status row = ''on-time''"
    using repayment_status [OF e1] loan reps p1
    by (auto simp: repay_on_time_def due_2024_03_30)
  moreover have "\<exists>row. repayments d2 = [row] \<and> p_status row = ''late''"
    using repayment_status [OF e2] loan reps p2
    by (auto simp: repay_late_def repay_on_time_def due_2024_03_30)
  ultimately show ?thesis
    using e1 e2 p1 p2 unfolding d_def by blast
qed

subsection \<open>C5: a repayment with an unknown loan or a wrong amount\<close>

text \<open>
  Claim C5 asks for a 4xx-class error when the loan id is unknown or the amount is off by
  more than 0.01, with the state unchanged. The handler raises status 400 inside its own
  \<open>try\<close>, whose \<open>except Exception\<close> clause catches it and raises status 500. The
  evaluation below shows it for a validated request with an unknown loan id and for one
  with an amount that is off by 1: the outcome is status 500 and the database is unchanged.
\<close>

theorem invalid_repayment_status_500:
  "valid_Repayment repay_unknown_loan
   \<and> find (\<lambda>l. l_loan_id l = r_loan_id repay_unknown_loan)
        (loans (run demo_artifacts empty_db [Apply clock1 application1])) = None
   \<and> record_repayment demo_artifacts
        (run demo_artifacts empty_db [Apply clock1 application1]) repay_unknown_loan
      = (Inl (HTTPException 500), run demo_artifacts empty_db [Apply clock1 application1])
   \<and> valid_Repayment repay_wrong_amount
   \<and> record_repayment demo_artifacts
        (run demo_artifacts empty_db [Apply clock1 application1]) repay_wrong_amount
      = (Inl (HTTPException 500), run demo_artifacts empty_db [Apply clock1 application1])"
  by (simp add: scenario_defs valid_Repayment_def date_pattern_def digit_val_def digit_table_def)

subsection \<open>C6: first write wins\<close>

text \<open>
  Claim C6 says that a second application with other feature values succeeds and leaves
  the stored features intact. The loan id is made of the user id and the epoch second, and
  it is the primary key of \<open>loans\<close>: the validated second application below, served in
  the same second as the first one of that user, fails with status 500. The stored
  features are intact.
\<close>

theorem second_application_same_second_fails:
  "valid_LoanApplication application2
 \<and> users (run demo_artifacts empty_db [Apply clock1 application1]) ''u1'' =
     Some \<lparr>u_transaction_frequency = 15, u_avg_transaction_amount = 100,
           u_utility_payment_consistency = 0.5, u_airtime_topup_frequency = 8\<rparr>
 \<and> user_id application2 = ''u1''
 \<and> transaction_frequency application2 \<noteq> 15
 \<and> apply_loan demo_artifacts clock1
      (run demo_artifacts empty_db [Apply clock1 application1]) application2
     = (Inl (HTTPException 500), run demo_artifacts empty_db [Apply clock1 application1])"
  by (simp add: scenario_defs valid_LoanApplication_def)

text \<open>
  Claim C6 as amended. The features stored for a user are those of the application that
  created the user's row, and no later request changes them, whether it succeeds or not:
  over every history of applications and repayments a stored row of \<open>users\<close> stays as it
  is. A later application for the same user, whatever its feature values, succeeds
  whenever its explanation can be computed, its due date is in range and its loan id (the
  user id and the epoch second) is not stored yet, and it leaves the stored features
  intact.
\<close>

theorem first_write_wins:
  "(users d uid = Some u \<longrightarrow> users (run A d reqs) uid = Some u)
 \<and> (users d (user_id a) = None \<and> apply_loan A now d a = (Inr resp, d') \<longrightarrow>
      users d' (user_id a) =
        Some \<lparr>u_transaction_frequency = transaction_frequency a,
              u_avg_transaction_amount = avg_transaction_amount a,
              u_utility_payment_consistency = utility_payment_consistency a,
              u_airtime_topup_frequency = airtime_topup_frequency a\<rparr>)
 \<and> (users d (user_id a) = Some u
      \<and> shap_explanation A (scaler_transform A
             [transaction_frequency a, avg_transaction_amount a,
              utility_payment_consistency a, airtime_topup_frequency a]) = Inr explanation
      \<and> next_due_date (now_due now) = Inr due_date
      \<and> ''L'' @ user_id a @ ''_'' @ str_int (now_timestamp now)
             \<notin> set (map l_loan_id (loans d)) \<longrightarrow>
      (\<exists>resp2 d2. apply_loan A now d a = (Inr resp2, d2)
                 \<and> users d2 (user_id a) = Some u))"
proof (intro conjI impI)
  assume "users d uid = Some u"
  then show "users (run A d reqs) uid = Some u"
    by (rule run_users)
next
  assume h: "users d (user_id a) = None \<and> apply_loan A now d a = (Inr resp, d')"
  then have e: "apply_loan A now d a = (Inr resp, d')" by simp
  from apply_loan_InrD [OF e] obtain explanation due_date where
    k: "shap_explanation A (scaler_transform A
             [transaction_frequency a, avg_transaction_amount a,
              utility_payment_consistency a, airtime_topup_frequency a]) = Inr explanation"
       "next_due_date (now_due now) = Inr due_date"
       "''L'' @ user_id a @ ''_'' @ str_int (now_timestamp now)
             \<notin> set (map l_loan_id (loans d))"
    by blast
  from e h apply_loan_success [OF k]
  show "users d' (user_id a) =
        Some \<lparr>u_transaction_frequency = transaction_frequency a,
              u_avg_transaction_amount = avg_transaction_amount a,
              u_utility_payment_consistency = utility_payment_consistency a,
              u_airtime_topup_frequency = airtime_topup_frequency a\<rparr>"
    by (auto simp: Let_def)
next
  assume h: "users d (user_id a) = Some u
      \<and> shap_explanation A (scaler_transform A
             [transaction_frequency a, avg_transaction_amount a,
              utility_payment_consistency a, airtime_topup_frequency a]) = Inr explanation
      \<and> next_due_date (now_due now) = Inr due_date
      \<and> ''L'' @ user_id a @ ''_'' @ str_int (now_timestamp now)
             \<notin> set (map l_loan_id (loans d))"
  then have k: "shap_explanation A (scaler_transform A
             [transaction_frequency a, avg_transaction_amount a,
              utility_payment_consistency a, airtime_topup_frequency a]) = Inr explanation"
       "next_due_date (now_due now) = Inr due_date"
       "''L'' @ user_id a @ ''_'' @ str_int (now_timestamp now)
             \<notin> set (map l_loan_id (loans d))"
    and u: "users d (user_id a) = Some u"
    by simp_all
  from apply_loan_success [OF k] obtain resp2 d2 where
    e: "apply_loan A now d a = (Inr resp2, d2)"
    by (auto simp: Let_def)
  from apply_loan_users [OF u, of A now a] e have "users d2 (user_id a) = Some u"
    by simp
  with e show "\<exists>resp2 d2. apply_loan A now d a = (Inr resp2, d2)
                 \<and> users d2 (user_id a) = Some u"
    by blast
qed

theorem first_write_wins_witness:
  "users (run demo_artifacts empty_db [Apply clock1 application1]) ''u1'' =
     Some \<lparr>u_transaction_frequency = 15, u_avg_transaction_amount = 100,
           u_utility_payment_consistency = 0.5, u_airtime_topup_frequency = 8\<rparr>
 \<and> transaction_frequency application2 \<noteq> transaction_frequency application1
 \<and> (\<exists>resp2 d2.
      apply_loan demo_artifacts clock2
        (run demo_artifacts empty_db [Apply clock1 application1]) application2 = (Inr resp2, d2)
    \<and> users d2 ''u1'' =
         Some \<lparr>u_transaction_frequency = 15, u_avg_transaction_amount = 100,
               u_utility_payment_consistency = 0.5, u_airtime_topup_frequency = 8\<rparr>)
 \<and> users (run demo_artifacts (run demo_artifacts empty_db [Apply clock1 application1])
      [Apply clock2 application2, Repay repay_on_time, Apply clock1 application2]) ''u1'' =
     Some \<lparr>u_transaction_frequency = 15, u_avg_transaction_amount = 100,
           u_utility_payment_consistency = 0.5, u_airtime_topup_frequency = 8\<rparr>"
proof -
  define d1 where "d1 = run demo_artifacts empty_db [Apply clock1 application1]"
  define f1 where "f1 = \<lparr>u_transaction_frequency = 15, u_avg_transaction_amount = 100,
           u_utility_payment_consistency = 0.5, u_airtime_topup_frequency = (8::real)\<rparr>"
  have "\<exists>resp d'. apply_loan demo_artifacts clock1 empty_db application1 = (Inr resp, d')"
    by (simp add: scenario_defs)
  then obtain resp1 d' where
    e1: "apply_loan demo_artifacts clock1 empty_db application1 = (Inr resp1, d')"
    by blast
  have d': "d' = d1"
    using e1 unfolding d1_def run_def by simp
  have n: "users empty_db (user_id application1) = None"
    by (simp add: empty_db_def)
  have u1: "users d1 ''u1'' = Some f1"
    using first_write_wins [of empty_db _ _ demo_artifacts _ application1 clock1 resp1 "d'"] n e1
    unfolding d' f1_def by (simp add: application1_def)
  have k: "users d1 (user_id application2) = Some f1
      \<and> shap_explanation demo_artifacts (scaler_transform demo_artifacts
             [transaction_frequency application2, avg_transaction_amount application2,
              utility_payment_consistency application2, airtime_topup_frequency application2])
          = Inr [(''transaction_frequency'', 0), (''avg_transaction_amount'', 0),
                 (''utility_payment_consistency'', 0), (''airtime_topup_frequency'', 0)]
      \<and> next_due_date (now_due clock2) = Inr ''2024-03-30''
      \<and> ''L'' @ user_id application2 @ ''_'' @ str_int (now_timestamp clock2)
             \<notin> set (map l_loan_id (loans d1))"
    using u1 unfolding d1_def by (simp add: scenario_defs)
  have u2: "\<exists>resp2 d2. apply_loan demo_artifacts clock2 d1 application2 = (Inr resp2, d2)
                 \<and> users d2 ''u1'' = Some f1"
    using first_write_wins [of d1 _ f1 demo_artifacts _ application2 clock2 _ _ _ "''2024-03-30''"] k
    by (simp add: application2_def)
  have u3: "users (run demo_artifacts d1
      [Apply clock2 application2, Repay repay_on_time, Apply clock1 application2]) ''u1'' = Some f1"
    using first_write_wins [of d1 "''u1''" f1 demo_artifacts] u1
    by blast
  have "transaction_frequency application2 \<noteq> transaction_frequency application1"
    by (simp add: application1_def application2_def)
  with u1 u2 u3 show ?thesis
    unfolding d1_def f1_def by blast
qed

subsection \<open>C7: a failing explanation\<close>

text \<open>
  Claim C7 says that a failure of the explanation never makes the application fail. The
  explainer is called inside the \<open>try\<close> of \<open>apply_loan\<close>, before anything is written:
  for a validated application and an explainer that raises, the handler answers status 500
  and the database is unchanged, so no decision and no score is returned or stored.
\<close>

theorem explanation_failure_blocks_application:
  "valid_LoanApplication application1
 \<and> explainer failing_explainer (scaler_transform failing_explainer
      [transaction_frequency application1, avg_transaction_amount application1,
       utility_payment_consistency application1, airtime_topup_frequency application1]) = None
 \<and> apply_loan failing_explainer clock1 empty_db application1
      = (Inl (HTTPException 500), empty_db)"
  by (simp add: scenario_defs valid_LoanApplication_def)

text \<open>
  Claim C7 as amended. If the explanation computation raises during a loan application,
  the application fails with status 500 and nothing is persisted: the database is the one
  before the request, and no decision or score is returned.
\<close>

theorem explanation_failure_is_fatal:
  assumes "explainer A (scaler_transform A
      [transaction_frequency a, avg_transaction_amount a,
       utility_payment_consistency a, airtime_topup_frequency a]) = None"
  shows "apply_loan A now d a = (Inl (HTTPException 500), d)"
  using assms
  unfolding apply_loan_def apply_loan_try_def shap_explanation_def
  by (simp add: Let_def)

theorem explanation_failure_is_fatal_witness:
  "explainer failing_explainer (scaler_transform failing_explainer
      [transaction_frequency application2, avg_transaction_amount application2,
       utility_payment_consistency application2, airtime_topup_frequency application2]) = None
 \<and> apply_loan failing_explainer clock2
      (run demo_artifacts empty_db [Apply clock1 application1]) application2
      = (Inl (HTTPException 500), run demo_artifacts empty_db [Apply clock1 application1])"
proof -
  have n: "explainer failing_explainer (scaler_transform failing_explainer
      [transaction_frequency application2, avg_transaction_amount application2,
       utility_payment_consistency application2, airtime_topup_frequency application2]) = None"
    by (simp add: failing_explainer_def)
  from explanation_failure_is_fatal [OF n] n show ?thesis
    by blast
qed

subsection \<open>C8: the deltas in the repayment response\<close>

text \<open>
  Claim C8 says that \<open>points_earned\<close> of the response is the change of the stored points
  and \<open>badges_earned\<close> the badges added in this transition. The response is built from the
  status and the new streak alone. After one application and two on-time repayments the
  third on-time repayment raises the stored points from 150 to 300 and the response
  reports 50. After a late repayment and two more on-time ones, the next on-time repayment
  brings the streak to 3 again: the stored badges stay as they are, the points go from 400
  to 450, and the response lists "Consistent Payer" as earned.
\<close>

theorem repay_response_misreports_delta:
  "user_gamification
     (run demo_artifacts empty_db
        [Apply clock1 application1, Repay repay_on_time, Repay repay_on_time]) ''u1''
     = Some \<lparr>repayment_streak = 2, points_earned = 150,
             badges_earned = ''First Application''\<rparr>
 \<and> record_repayment demo_artifacts
     (run demo_artifacts empty_db
        [Apply clock1 application1, Repay repay_on_time, Repay repay_on_time]) repay_on_time
     = (Inr \<lparr>rr_user_id = ''u1'', rr_loan_id = ''Lu1_1709200000'', rr_status = ''on-time'',
             rr_new_repayment_streak = 3, rr_points_earned = 50,
             rr_badges_earned = [''Consistent Payer''], rr_new_score = 90,
             rr_message = ''Repayment recorded! You earned 50 points and a badge.''\<rparr>,
        run demo_artifacts empty_db
          [Apply clock1 application1, Repay repay_on_time, Repay repay_on_time,
           Repay repay_on_time])
 \<and> user_gamification
     (run demo_artifacts empty_db
        [Apply clock1 application1, Repay repay_on_time, Repay repay_on_time,
         Repay repay_on_time]) ''u1''
     = Some \<lparr>repayment_streak = 3, points_earned = 300,
             badges_earned = ''First Application,Consistent Payer''\<rparr>
 \<and> user_gamification
     (run demo_artifacts empty_db
        [Apply clock1 application1, Repay repay_on_time, Repay repay_on_time,
         Repay repay_on_time, Repay repay_late, Repay repay_on_time, Repay repay_on_time])
       ''u1''
     = Some \<lparr>repayment_streak = 2, points_earned = 400,
             badges_earned = ''First Application,Consistent Payer''\<rparr>
 \<and> fst (record_repayment demo_artifacts
     (run demo_artifacts empty_db
        [Apply clock1 application1, Repay repay_on_time, Repay repay_on_time,
         Repay repay_on_time, Repay repay_late, Repay repay_on_time, Repay repay_on_time])
       repay_on_time)
     = Inr \<lparr>rr_user_id = ''u1'', rr_loan_id = ''Lu1_1709200000'', rr_status = ''on-time'',
             rr_new_repayment_streak = 3, rr_points_earned = 50,
             rr_badges_earned = [''Consistent Payer''], rr_new_score = 90,
             rr_message = ''Repayment recorded! You earned 50 points and a badge.''\<rparr>
 \<and> user_gamification (snd (record_repayment demo_artifacts
     (run demo_artifacts empty_db
        [Apply clock1 application1, Repay repay_on_time, Repay repay_on_time,
         Repay repay_on_time, Repay repay_late, Repay repay_on_time, Repay repay_on_time])
       repay_on_time)) ''u1''
     = Some \<lparr>repayment_streak = 3, points_earned = 450,
             badges_earned = ''First Application,Consistent Payer''\<rparr>"
  by (simp add: scenario_defs)

subsection \<open>C2: badges are granted once and kept\<close>

text \<open>
  Claim C2 says that "Consistent Payer" and its 100 points are granted at most once over a
  user's history and that a granted badge is never removed. In the history below the user
  earns the badge with the third on-time repayment (points 150 to 300), a second
  application then replaces the stored badges by the empty string, and after a late
  repayment a further run of three on-time repayments grants the badge and the 100 points
  again (points 450 to 600).
\<close>

theorem badge_granted_twice:
  "user_gamification
     (run demo_artifacts empty_db
        [Apply clock1 application1, Repay repay_on_time, Repay repay_on_time,
         Repay repay_on_time]) ''u1''
     = Some \<lparr>repayment_streak = 3, points_earned = 300,
             badges_earned = ''First Application,Consistent Payer''\<rparr>
 \<and> user_gamification
     (run demo_artifacts empty_db
        [Apply clock1 application1, Repay repay_on_time, Repay repay_on_time,
         Repay repay_on_time, Apply clock2 application2]) ''u1''
     = Some \<lparr>repayment_streak = 3, points_earned = 350, badges_earned = []\<rparr>
 \<and> user_gamification
     (run demo_artifacts empty_db
        [Apply clock1 application1, Repay repay_on_time, Repay repay_on_time,
         Repay repay_on_time, Apply clock2 application2, Repay repay_late,
         Repay repay_on_time, Repay repay_on_time]) ''u1''
     = Some \<lparr>repayment_streak = 2, points_earned = 450, badges_earned = []\<rparr>
 \<and> user_gamification
     (run demo_artifacts empty_db
        [Apply clock1 application1, Repay repay_on_time, Repay repay_on_time,
         Repay repay_on_time, Apply clock2 application2, Repay repay_late,
         Repay repay_on_time, Repay repay_on_time, Repay repay_on_time]) ''u1''
     = Some \<lparr>repayment_streak = 3, points_earned = 600,
             badges_earned = ''Consistent Payer''\<rparr>"
  by (simp add: scenario_defs)

subsection \<open>C10: the owner of the loan is not checked\<close>

text \<open>
  Claim C10 says that a repayment succeeds whenever the loan exists, the amount matches its
  principal within 0.01 and the request's user has a \<open>users\<close> row. The request model
  checks the shape of \<open>payment_date\<close>, not that it is a date of the calendar: for the
  validated request below, dated 2024-02-30, the loan exists, the amount equals the
  principal, the user has a row, \<open>strptime\<close> raises, and the handler answers status 500
  and records nothing.
\<close>

theorem repayment_with_invalid_date_fails:
  "valid_Repayment repay_bad_date
 \<and> find (\<lambda>l. l_loan_id l = r_loan_id repay_bad_date)
      (loans (run demo_artifacts empty_db [Apply clock1 application1]))
     = Some \<lparr>l_loan_id = ''Lu1_1709200000'', l_user_id = ''u1'', l_amount = 1000,
             l_decision = ''approve'', l_score = 90, l_application_date = ''2024-02-29'',
             l_due_date = ''2024-03-30''\<rparr>
 \<and> r_amount repay_bad_date = 1000
 \<and> \<not> amount_mismatch 1000 (r_amount repay_bad_date)
 \<and> users (run demo_artifacts empty_db [Apply clock1 application1]) (r_user_id repay_bad_date)
     = Some \<lparr>u_transaction_frequency = 15, u_avg_transaction_amount = 100,
             u_utility_payment_consistency = 0.5, u_airtime_topup_frequency = 8\<rparr>
 \<and> record_repayment demo_artifacts
      (run demo_artifacts empty_db [Apply clock1 application1]) repay_bad_date
     = (Inl (HTTPException 500), run demo_artifacts empty_db [Apply clock1 application1])"
  by (simp add: scenario_defs valid_Repayment_def date_pattern_def digit_val_def
      digit_table_def)

text \<open>
  Claim C10 as amended. \<open>record_repayment\<close> never compares the request's user with the
  owner of the loan. Whenever the loan exists, the handler's own test of the amount passes
  (the float difference of principal and amount is, in absolute value, not greater than
  the double nearest 0.01), the request's user has a \<open>users\<close> row, and the payment date
  and the loan's due date are dates of the calendar (the due date not the last day of year
  9999), the request succeeds, the repayment is recorded under the request's user, and the
  gamification row of that user, and of no other, is advanced. Nothing is assumed about
  the owner of the loan.
\<close>

theorem repayment_ignores_owner:
  assumes "find (\<lambda>l. l_loan_id l = r_loan_id r) (loans d) = Some loan"
    and "\<not> amount_mismatch (l_amount loan) (r_amount r)"
    and "users d (r_user_id r) = Some u"
    and "strptime_ymd (l_due_date loan) = Inr due"
    and "strptime_ymd (r_payment_date r) = Inr pay"
    and "add_days due 1 = Inr deadline"
  shows "\<exists>resp d' row adv.
           record_repayment A d r = (Inr resp, d')
         \<and> rr_user_id resp = r_user_id r
         \<and> repayments d' = repayments d @ [row]
         \<and> p_user_id row = r_user_id r \<and> p_loan_id row = r_loan_id r
         \<and> p_amount row = r_amount r \<and> p_payment_date row = r_payment_date r
         \<and> adv = advance (select_gamification d (r_user_id r)) (rr_status resp)
         \<and> user_gamification d' =
             (user_gamification d)(r_user_id r \<mapsto>
                \<lparr>repayment_streak = fst adv, points_earned = fst (snd adv),
                 badges_earned = join_comma (snd (snd adv))\<rparr>)
         \<and> users d' = users d \<and> loans d' = loans d"
  using record_repayment_success [OF assms(1,2,4,5,6,3), of A]
  by (simp add: Let_def)

theorem repayment_ignores_owner_witness:
  "\<exists>loan resp d'.
     find (\<lambda>l. l_loan_id l = r_loan_id repay_by_u2)
       (loans (run demo_artifacts empty_db
          [Apply clock1 application1, Apply clock2 application_u2])) = Some loan
   \<and> l_user_id loan = ''u1'' \<and> r_user_id repay_by_u2 = ''u2''
   \<and> record_repayment demo_artifacts
        (run demo_artifacts empty_db [Apply clock1 application1, Apply clock2 application_u2])
        repay_by_u2 = (Inr resp, d')
   \<and> rr_user_id resp = ''u2''
   \<and> map p_user_id (repayments d') = [''u2'']
   \<and> user_gamification d' ''u2'' =
        Some \<lparr>repayment_streak = 1, points_earned = 100,
              badges_earned = ''First Application''\<rparr>
   \<and> user_gamification d' ''u1'' =
        Some \<lparr>repayment_streak = 0, points_earned = 50,
              badges_earned = ''First Application''\<rparr>"
proof -
  define d where "d = run demo_artifacts empty_db
      [Apply clock1 application1, Apply clock2 application_u2]"
  define loan where "loan = \<lparr>l_loan_id = ''Lu1_1709200000'', l_user_id = ''u1'',
      l_amount = 1000, l_decision = ''approve'', l_score = 90,
      l_application_date = ''2024-02-29'', l_due_date = ''2024-03-30''\<rparr>"
  define u where "u = \<lparr>u_transaction_frequency = 4, u_avg_transaction_amount = 20,
      u_utility_payment_consistency = 0.5, u_airtime_topup_frequency = (3::real)\<rparr>"
  have h1: "find (\<lambda>l. l_loan_id l = r_loan_id repay_by_u2) (loans d) = Some loan"
    unfolding d_def loan_def by (simp add: scenario_defs)
  have h2: "\<not> amount_mismatch (l_amount loan) (r_amount repay_by_u2)"
    unfolding loan_def by (simp add: repay_by_u2_def repay_on_time_def float_defs)
  have h3: "users d (r_user_id repay_by_u2) = Some u"
    unfolding d_def u_def by (simp add: scenario_defs)
  have h4: "strptime_ymd (l_due_date loan) = Inr 738975"
    unfolding loan_def by (simp add: due_2024_03_30)
  have h5: "strptime_ymd (r_payment_date repay_by_u2) = Inr 738976"
    by (simp add: repay_by_u2_def repay_on_time_def pay_2024_03_31)
  have h6: "add_days 738975 1 = Inr 738976"
    by (simp add: add_days_def MAXORDINAL_def)
  have g: "select_gamification d ''u2'' =
      \<lparr>repayment_streak = 0, points_earned = 50, badges_earned = ''First Application''\<rparr>"
    and g1: "user_gamification d ''u1'' =
      Some \<lparr>repayment_streak = 0, points_earned = 50, badges_earned = ''First Application''\<rparr>"
    and reps: "repayments d = []"
    unfolding d_def by (simp_all add: scenario_defs)
  have uid: "r_user_id repay_by_u2 = ''u2''"
    by (simp add: repay_by_u2_def)
  from repayment_ignores_owner [OF h1 h2 h3 h4 h5 h6, of demo_artifacts]
  obtain resp d' row adv where
    r: "record_repayment demo_artifacts d repay_by_u2 = (Inr resp, d')"
       "rr_user_id resp = r_user_id repay_by_u2"
       "repayments d' = repayments d @ [row]"
       "p_user_id row = r_user_id repay_by_u2"
       "adv = advance (select_gamification d (r_user_id repay_by_u2)) (rr_status resp)"
       "user_gamification d' =
             (user_gamification d)(r_user_id repay_by_u2 \<mapsto>
                \<lparr>repayment_streak = fst adv, points_earned = fst (snd adv),
                 badges_earned = join_comma (snd (snd adv))\<rparr>)"
    by blast
  have st: "rr_status resp = ''on-time''"
    using r(1) record_repayment_success [OF h1 h2 h4 h5 h6 h3, of demo_artifacts]
    by (auto simp: Let_def)
  have adv: "adv = (1, 100, [''First Application''])"
    unfolding r(5) uid g st by (simp add: advance_def badge_list_def Let_def)
  have "user_gamification d' ''u2'' =
        Some \<lparr>repayment_streak = 1, points_earned = 100,
              badges_earned = ''First Application''\<rparr>"
    unfolding r(6) uid adv by simp
  moreover have "user_gamification d' ''u1'' =
        Some \<lparr>repayment_streak = 0, points_earned = 50,
              badges_earned = ''First Application''\<rparr>"
    unfolding r(6) uid using g1 by simp
  moreover have "map p_user_id (repayments d') = [''u2'']"
    unfolding r(3) reps using r(4) uid by simp
  moreover have "l_user_id loan = ''u1''"
    unfolding loan_def by simp
  ultimately show ?thesis
    using h1 r(1,2) uid unfolding d_def by auto
qed

end
